theory Spec2Isabelle
  imports Main "HOL-Library.FSet" "HOL-Library.Finite_Map"
begin

section \<open>The shared-pointer registry of the C bindings\<close>

text \<open>
  This theory embeds \<^verbatim>\<open>SharedPtrManager\<close>
  (\<^verbatim>\<open>src/amplitude_shared_ptr_manager.h\<close> and \<^verbatim>\<open>src/amplitude_shared_ptr_manager.cpp\<close>):
  the map from raw pointer handles to type-erased \<^verbatim>\<open>std::shared_ptr\<close> objects that the
  C API uses to hand reference-counted C++ objects out as plain pointers.

  The embedding is sequential: each member function takes its lock for its whole body, so a
  call is one atomic step on the map. The mutex and the lazily created singleton are not part
  of the model; the manager is passed explicitly and returned updated by the member functions
  that write to it.
\<close>

subsection \<open>Data\<close>

text \<open>A raw pointer value. \<open>0\<close> is \<^verbatim>\<open>nullptr\<close>.\<close>

type_synonym addr = nat

text \<open>\<^verbatim>\<open>std::type_index(typeid(T))\<close>: one value for each C++ type.\<close>

datatype type_index = TypeIndex nat

text \<open>
  A \<^verbatim>\<open>std::shared_ptr\<close>: the stored pointer, which \<^verbatim>\<open>get()\<close> returns and which
  \<^verbatim>\<open>operator bool\<close> and \<^verbatim>\<open>operator==\<close> look at, and the control block it shares ownership
  through (\<open>None\<close> for an empty pointer). \<^verbatim>\<open>std::static_pointer_cast\<close> to or from
  \<^verbatim>\<open>void\<close> keeps both, so a type-erased pointer is the same record.
\<close>

record shared_ptr =
  get :: addr
  ctrl :: "nat option"

text \<open>The \<^verbatim>\<open>shared_ptr\<close> that \<^verbatim>\<open>return nullptr\<close> constructs.\<close>

definition null_shared_ptr :: shared_ptr where
  "null_shared_ptr = \<lparr>get = 0, ctrl = None\<rparr>"

text \<open>\<^verbatim>\<open>struct SharedPtrEntry\<close>.\<close>

record SharedPtrEntry =
  ptr :: shared_ptr
  type :: type_index

text \<open>
  \<^verbatim>\<open>class SharedPtrManager\<close>: its one data member that carries state is
  \<^verbatim>\<open>std::unordered_map<void*, SharedPtrEntry> _storage\<close>, a finite map with unique keys.
\<close>

record SharedPtrManager =
  storage :: "(addr, SharedPtrEntry) fmap"

text \<open>The manager that \<^verbatim>\<open>Instance()\<close> constructs on first use: \<^verbatim>\<open>_storage\<close> is empty.\<close>

definition new_SharedPtrManager :: SharedPtrManager where
  "new_SharedPtrManager = \<lparr>storage = fmempty\<rparr>"

subsection \<open>Member functions\<close>

text \<open>
  \<^verbatim>\<open>template<typename T> T* Store(std::shared_ptr<T> ptr)\<close>. The template argument is the
  explicit \<open>T\<close>. \<^verbatim>\<open>emplace\<close> runs only on the branch where \<^verbatim>\<open>find\<close> found nothing, so it
  always inserts.
\<close>

definition Store :: "SharedPtrManager \<Rightarrow> shared_ptr \<Rightarrow> type_index \<Rightarrow> addr \<times> SharedPtrManager" where
  "Store m p T =
     (if get p = 0 then (0, m)
      else
        let raw_ptr = get p in
        case fmlookup (storage m) raw_ptr of
          Some it \<Rightarrow> if type it = T then (raw_ptr, m) else (0, m)
        | None \<Rightarrow> (raw_ptr, m\<lparr>storage := fmupd raw_ptr \<lparr>ptr = p, type = T\<rparr> (storage m)\<rparr>))"

text \<open>\<^verbatim>\<open>template<typename T> std::shared_ptr<T> Get(T* raw_ptr)\<close>. It only reads the map.\<close>

definition Get :: "SharedPtrManager \<Rightarrow> addr \<Rightarrow> type_index \<Rightarrow> shared_ptr" where
  "Get m raw_ptr T =
     (if raw_ptr = 0 then null_shared_ptr
      else
        case fmlookup (storage m) raw_ptr of
          Some it \<Rightarrow> if type it = T then ptr it else null_shared_ptr
        | None \<Rightarrow> null_shared_ptr)"

text \<open>\<^verbatim>\<open>template<typename T> bool Remove(T* raw_ptr)\<close>.\<close>

definition Remove :: "SharedPtrManager \<Rightarrow> addr \<Rightarrow> type_index \<Rightarrow> bool \<times> SharedPtrManager" where
  "Remove m raw_ptr T =
     (if raw_ptr = 0 then (False, m)
      else
        case fmlookup (storage m) raw_ptr of
          Some it \<Rightarrow>
            if type it = T then (True, m\<lparr>storage := fmdrop raw_ptr (storage m)\<rparr>)
            else (False, m)
        | None \<Rightarrow> (False, m))"

text \<open>\<^verbatim>\<open>bool Contains(void* raw_ptr) const\<close>.\<close>

definition Contains :: "SharedPtrManager \<Rightarrow> addr \<Rightarrow> bool" where
  "Contains m raw_ptr =
     (if raw_ptr = 0 then False
      else case fmlookup (storage m) raw_ptr of Some it \<Rightarrow> True | None \<Rightarrow> False)"

text \<open>\<^verbatim>\<open>void Clear()\<close>.\<close>

definition Clear :: "SharedPtrManager \<Rightarrow> SharedPtrManager" where
  "Clear m = m\<lparr>storage := fmempty\<rparr>"

text \<open>\<^verbatim>\<open>size_t GetStoredCount() const\<close>: the number of keys of the map.\<close>

definition GetStoredCount :: "SharedPtrManager \<Rightarrow> nat" where
  "GetStoredCount m = fcard (fmdom (storage m))"

text \<open>\<^verbatim>\<open>template<typename T> bool HasType(T* raw_ptr) const\<close>.\<close>

definition HasType :: "SharedPtrManager \<Rightarrow> addr \<Rightarrow> type_index \<Rightarrow> bool" where
  "HasType m raw_ptr T =
     (if raw_ptr = 0 then False
      else
        case fmlookup (storage m) raw_ptr of
          Some it \<Rightarrow> type it = T
        | None \<Rightarrow> False)"

subsection \<open>Sequences of calls\<close>

text \<open>
  One call of a public member function, with its arguments, and what it returns. \<open>call\<close>
  runs one of them on a manager and gives the returned value and the manager afterwards;
  the member functions that only read give the manager back as it was.
\<close>

datatype op =
    OpStore shared_ptr type_index
  | OpGet addr type_index
  | OpRemove addr type_index
  | OpContains addr
  | OpClear
  | OpGetStoredCount
  | OpHasType addr type_index

datatype ret =
    RetHandle addr
  | RetPtr shared_ptr
  | RetBool bool
  | RetVoid
  | RetSize nat

fun call :: "SharedPtrManager \<Rightarrow> op \<Rightarrow> ret \<times> SharedPtrManager" where
  "call m (OpStore p T) = (case Store m p T of (h, m') \<Rightarrow> (RetHandle h, m'))"
| "call m (OpGet h T) = (RetPtr (Get m h T), m)"
| "call m (OpRemove h T) = (case Remove m h T of (b, m') \<Rightarrow> (RetBool b, m'))"
| "call m (OpContains h) = (RetBool (Contains m h), m)"
| "call m OpClear = (RetVoid, Clear m)"
| "call m OpGetStoredCount = (RetSize (GetStoredCount m), m)"
| "call m (OpHasType h T) = (RetBool (HasType m h T), m)"

text \<open>The manager after a sequence of calls, first call first.\<close>

fun calls :: "SharedPtrManager \<Rightarrow> op list \<Rightarrow> SharedPtrManager" where
  "calls m [] = m"
| "calls m (c # cs) = calls (snd (call m c)) cs"

text \<open>
  The states the singleton can be in: \<^verbatim>\<open>_storage\<close> is private, so every one of them is the
  freshly constructed manager after some sequence of calls.
\<close>

definition registry_after :: "op list \<Rightarrow> SharedPtrManager" where
  "registry_after cs = calls new_SharedPtrManager cs"

text \<open>
  Every key is the non-null stored pointer of its own entry: the invariant that \<open>Store\<close>
  sets up and nothing breaks.
\<close>

definition keys_are_identities :: "SharedPtrManager \<Rightarrow> bool" where
  "keys_are_identities m = fmpred (\<lambda>k e. k \<noteq> 0 \<and> get (ptr e) = k) (storage m)"

section \<open>Properties\<close>

subsection \<open>The invariant\<close>

lemma keys_are_identities_new: "keys_are_identities new_SharedPtrManager"
  by (simp add: keys_are_identities_def new_SharedPtrManager_def)

lemma keys_are_identities_Store:
  assumes "keys_are_identities m"
  shows "keys_are_identities (snd (Store m p T))"
  using assms
  by (auto simp: keys_are_identities_def Store_def Let_def split: option.splits)

lemma keys_are_identities_Remove:
  assumes "keys_are_identities m"
  shows "keys_are_identities (snd (Remove m h T))"
  using assms
  by (auto simp: keys_are_identities_def Remove_def split: option.splits)

lemma keys_are_identities_Clear: "keys_are_identities (Clear m)"
  by (simp add: keys_are_identities_def Clear_def)

lemma keys_are_identities_call:
  assumes "keys_are_identities m"
  shows "keys_are_identities (snd (call m c))"
proof (cases c)
  case (OpStore p T)
  with keys_are_identities_Store [OF assms, of p T] show ?thesis
    by (auto split: prod.splits)
next
  case (OpRemove h T)
  with keys_are_identities_Remove [OF assms, of h T] show ?thesis
    by (auto split: prod.splits)
next
  case OpClear
  then show ?thesis by (simp add: keys_are_identities_Clear)
qed (use assms in simp_all)

lemma keys_are_identities_calls:
  "keys_are_identities m \<Longrightarrow> keys_are_identities (calls m cs)"
  by (induction cs arbitrary: m) (simp_all add: keys_are_identities_call)

lemma keys_are_identities_registry_after: "keys_are_identities (registry_after cs)"
  by (simp add: registry_after_def keys_are_identities_calls keys_are_identities_new)

lemma mapped_key:
  assumes "keys_are_identities m" and "fmlookup (storage m) h = Some e"
  shows "h \<noteq> 0 \<and> get (ptr e) = h"
  using assms unfolding keys_are_identities_def by auto

subsection \<open>What the lookups return on a mapped handle\<close>

lemma Store_maps:
  assumes "Store m p T = (h, m')" and "h \<noteq> 0"
  shows "h = get p \<and> (\<exists>e. fmlookup (storage m') h = Some e \<and> type e = T)"
  using assms
  by (auto simp: Store_def Let_def split: if_splits option.splits)

lemma Store_fresh:
  assumes "get p \<noteq> 0" and "fmlookup (storage m) (get p) = None"
  shows "Store m p T = (get p, m\<lparr>storage := fmupd (get p) \<lparr>ptr = p, type = T\<rparr> (storage m)\<rparr>)"
  using assms by (simp add: Store_def Let_def)

lemma Get_mapped:
  assumes "keys_are_identities m" and "fmlookup (storage m) h = Some e"
  shows "Get m h U = (if type e = U then ptr e else null_shared_ptr)"
  using mapped_key [OF assms] assms(2) by (simp add: Get_def)

lemma HasType_mapped:
  assumes "keys_are_identities m" and "fmlookup (storage m) h = Some e"
  shows "HasType m h U = (type e = U)"
  using mapped_key [OF assms] assms(2) by (simp add: HasType_def)

lemma Contains_mapped:
  assumes "keys_are_identities m"
  shows "Contains m h = (h |\<in>| fmdom (storage m))"
proof (cases "fmlookup (storage m) h")
  case None
  then show ?thesis by (simp add: Contains_def fmdom_notI)
next
  case (Some e)
  with mapped_key [OF assms Some] show ?thesis
    by (simp add: Contains_def fmlookup_dom_iff)
qed

subsection \<open>Store followed by Get\<close>

text \<open>
  Claim C1. In every state the registry can reach, when \<open>Store\<close> of a shared pointer \<open>p\<close>
  under type \<open>T\<close> returns a non-null handle \<open>h\<close>, the handle is the address of \<open>p\<close>'s
  object, and \<open>Get\<close> of \<open>h\<close> under \<open>T\<close>, called right after, returns the shared pointer
  that the registry holds in its entry for \<open>h\<close>. That pointer is \<open>p\<close> itself, control
  block included, when the address was not mapped before the \<open>Store\<close>, and the pointer of
  the entry that was already there otherwise. In both cases it is non-null and points at the
  address of \<open>p\<close>'s object (the two compare equal, as \<^verbatim>\<open>operator==\<close> compares
  \<^verbatim>\<open>get()\<close>).
\<close>

theorem Store_Get_round_trip:
  assumes "Store (registry_after cs) p T = (h, m')" and "h \<noteq> 0"
  shows "h = get p
       \<and> (\<exists>e. fmlookup (storage m') h = Some e \<and> type e = T \<and> Get m' h T = ptr e)
       \<and> Get m' h T =
           (case fmlookup (storage (registry_after cs)) (get p) of
              None \<Rightarrow> p
            | Some e0 \<Rightarrow> ptr e0)
       \<and> (fmlookup (storage (registry_after cs)) (get p) = None \<longrightarrow> Get m' h T = p)
       \<and> get (Get m' h T) = get p
       \<and> get (Get m' h T) \<noteq> 0"
proof -
  have inv: "keys_are_identities m'"
    using keys_are_identities_Store [OF keys_are_identities_registry_after, of cs p T] assms(1)
    by simp
  from Store_maps [OF assms] obtain e
    where h: "h = get p" and e: "fmlookup (storage m') h = Some e" "type e = T"
    by blast
  have stored: "Get m' h T = ptr e"
    using Get_mapped [OF inv e(1), of T] e(2) by simp
  have address: "get (ptr e) = h"
    using mapped_key [OF inv e(1)] by simp
  have which: "ptr e =
      (case fmlookup (storage (registry_after cs)) (get p) of None \<Rightarrow> p | Some e0 \<Rightarrow> ptr e0)"
  proof (cases "fmlookup (storage (registry_after cs)) (get p)")
    case None
    from assms(2) h have "get p \<noteq> 0" by simp
    from Store_fresh [OF this None, of T] assms(1) e(1) h None show ?thesis
      by auto
  next
    case (Some e0)
    with assms e(1) h show ?thesis
      by (auto simp: Store_def Let_def split: if_splits)
  qed
  from h e stored address which assms(2) show ?thesis
    by (auto split: option.splits)
qed

theorem Store_Get_round_trip_witness:
  "Store (registry_after []) \<lparr>get = 5, ctrl = Some 1\<rparr> (TypeIndex 0)
     = (5, \<lparr>storage = fmupd 5 \<lparr>ptr = \<lparr>get = 5, ctrl = Some 1\<rparr>, type = TypeIndex 0\<rparr> fmempty\<rparr>)
   \<and> (5::nat) \<noteq> 0
   \<and> fmlookup (storage (registry_after [])) (get \<lparr>get = 5, ctrl = Some 1\<rparr>) = None
   \<and> Get \<lparr>storage = fmupd 5 \<lparr>ptr = \<lparr>get = 5, ctrl = Some 1\<rparr>, type = TypeIndex 0\<rparr> fmempty\<rparr>
        5 (TypeIndex 0)
     = \<lparr>get = 5, ctrl = Some 1\<rparr>
   \<and> Store (registry_after [OpStore \<lparr>get = 5, ctrl = Some 1\<rparr> (TypeIndex 0)])
        \<lparr>get = 5, ctrl = Some 2\<rparr> (TypeIndex 0)
     = (5, registry_after [OpStore \<lparr>get = 5, ctrl = Some 1\<rparr> (TypeIndex 0)])
   \<and> Get (registry_after [OpStore \<lparr>get = 5, ctrl = Some 1\<rparr> (TypeIndex 0)]) 5 (TypeIndex 0)
     = \<lparr>get = 5, ctrl = Some 1\<rparr>"
proof -
  have st: "Store (registry_after []) \<lparr>get = 5, ctrl = Some 1\<rparr> (TypeIndex 0)
     = (5, \<lparr>storage = fmupd 5 \<lparr>ptr = \<lparr>get = 5, ctrl = Some 1\<rparr>, type = TypeIndex 0\<rparr> fmempty\<rparr>)"
    by (simp add: registry_after_def new_SharedPtrManager_def Store_def Let_def)
  have nz: "(5::nat) \<noteq> 0" by simp
  have fresh: "fmlookup (storage (registry_after [])) (get \<lparr>get = 5, ctrl = Some 1\<rparr>) = None"
    by (simp add: registry_after_def new_SharedPtrManager_def)
  have again: "Store (registry_after [OpStore \<lparr>get = 5, ctrl = Some 1\<rparr> (TypeIndex 0)])
        \<lparr>get = 5, ctrl = Some 2\<rparr> (TypeIndex 0)
     = (5, registry_after [OpStore \<lparr>get = 5, ctrl = Some 1\<rparr> (TypeIndex 0)])"
    by (simp add: registry_after_def new_SharedPtrManager_def Store_def Let_def)
  have mapped: "fmlookup (storage (registry_after [OpStore \<lparr>get = 5, ctrl = Some 1\<rparr> (TypeIndex 0)]))
        (get \<lparr>get = 5, ctrl = Some 2\<rparr>)
     = Some \<lparr>ptr = \<lparr>get = 5, ctrl = Some 1\<rparr>, type = TypeIndex 0\<rparr>"
    by (simp add: registry_after_def new_SharedPtrManager_def Store_def Let_def)
  from Store_Get_round_trip [OF st nz] fresh
  have g1: "Get \<lparr>storage = fmupd 5 \<lparr>ptr = \<lparr>get = 5, ctrl = Some 1\<rparr>, type = TypeIndex 0\<rparr> fmempty\<rparr>
        5 (TypeIndex 0) = \<lparr>get = 5, ctrl = Some 1\<rparr>"
    by blast
  from Store_Get_round_trip [OF again nz] mapped
  have g2: "Get (registry_after [OpStore \<lparr>get = 5, ctrl = Some 1\<rparr> (TypeIndex 0)]) 5 (TypeIndex 0)
     = \<lparr>get = 5, ctrl = Some 1\<rparr>"
    by simp
  from st nz fresh again g1 g2 show ?thesis by simp
qed

subsection \<open>Type-checked lookups\<close>

text \<open>
  Claim C2. In every state the registry can reach, a handle \<open>h\<close> that is mapped to an entry
  of type \<open>type e\<close> is not found under any other type \<open>U\<close>: \<open>Get\<close> returns the null
  pointer and \<open>HasType\<close> returns false. Under its own type both succeed: \<open>Get\<close> returns
  the stored pointer, which is non-null and points at \<open>h\<close>, and \<open>HasType\<close> returns true.
  By \<open>Store_maps\<close>, a handle that \<open>Store\<close> returned for type \<open>T\<close> is mapped in this
  way with \<open>type e = T\<close>.
\<close>

theorem lookup_type_safety:
  assumes "fmlookup (storage (registry_after cs)) h = Some e" and "U \<noteq> type e"
  shows "Get (registry_after cs) h U = null_shared_ptr
       \<and> HasType (registry_after cs) h U = False
       \<and> Get (registry_after cs) h (type e) = ptr e
       \<and> get (ptr e) = h \<and> h \<noteq> 0
       \<and> HasType (registry_after cs) h (type e) = True"
  using Get_mapped [OF keys_are_identities_registry_after assms(1)]
    HasType_mapped [OF keys_are_identities_registry_after assms(1)]
    mapped_key [OF keys_are_identities_registry_after assms(1)] assms(2)
  by auto

theorem lookup_type_safety_witness:
  "fmlookup (storage (registry_after [OpStore \<lparr>get = 5, ctrl = Some 1\<rparr> (TypeIndex 0)])) 5
     = Some \<lparr>ptr = \<lparr>get = 5, ctrl = Some 1\<rparr>, type = TypeIndex 0\<rparr>
   \<and> TypeIndex 1 \<noteq> TypeIndex 0
   \<and> Get (registry_after [OpStore \<lparr>get = 5, ctrl = Some 1\<rparr> (TypeIndex 0)]) 5 (TypeIndex 1)
     = null_shared_ptr
   \<and> HasType (registry_after [OpStore \<lparr>get = 5, ctrl = Some 1\<rparr> (TypeIndex 0)]) 5 (TypeIndex 1)
     = False
   \<and> Get (registry_after [OpStore \<lparr>get = 5, ctrl = Some 1\<rparr> (TypeIndex 0)]) 5 (TypeIndex 0)
     = \<lparr>get = 5, ctrl = Some 1\<rparr>
   \<and> HasType (registry_after [OpStore \<lparr>get = 5, ctrl = Some 1\<rparr> (TypeIndex 0)]) 5 (TypeIndex 0)
     = True"
proof -
  have e: "fmlookup (storage (registry_after [OpStore \<lparr>get = 5, ctrl = Some 1\<rparr> (TypeIndex 0)])) 5
     = Some \<lparr>ptr = \<lparr>get = 5, ctrl = Some 1\<rparr>, type = TypeIndex 0\<rparr>"
    by (simp add: registry_after_def new_SharedPtrManager_def Store_def Let_def)
  have u: "TypeIndex 1 \<noteq> type \<lparr>ptr = \<lparr>get = 5, ctrl = Some 1\<rparr>, type = TypeIndex 0\<rparr>"
    by simp
  from lookup_type_safety [OF e u] e show ?thesis by simp
qed

subsection \<open>Storing the same object twice\<close>

text \<open>
  Claim C3. Two calls of \<open>Store\<close> in a row, with shared pointers to the same address and
  the same type, return the same handle, and the second call leaves the manager, and so its
  entry count, as the first call left it. When the address is non-null and was not mapped
  before the first call, the handle is that address and the count after both calls is one
  more than before them.
\<close>

theorem Store_idempotent:
  assumes "get p2 = get p1"
    and "Store m p1 T = (h1, m1)"
    and "Store m1 p2 T = (h2, m2)"
  shows "h2 = h1 \<and> m2 = m1 \<and> GetStoredCount m2 = GetStoredCount m1
       \<and> (get p1 \<noteq> 0 \<and> fmlookup (storage m) (get p1) = None
            \<longrightarrow> h1 = get p1 \<and> GetStoredCount m2 = Suc (GetStoredCount m))"
proof -
  have second: "h2 = h1 \<and> m2 = m1"
    using assms by (auto simp: Store_def Let_def split: if_splits option.splits)
  have count: "GetStoredCount m1 = Suc (GetStoredCount m)" and h1: "h1 = get p1"
    if "get p1 \<noteq> 0" and "fmlookup (storage m) (get p1) = None"
    using Store_fresh [OF that, of T] assms(2) that(2)
    by (auto simp: GetStoredCount_def fcard_finsert_disjoint fmdom_notI)
  from second count h1 show ?thesis by simp
qed

theorem Store_idempotent_witness:
  "Store new_SharedPtrManager \<lparr>get = 5, ctrl = Some 1\<rparr> (TypeIndex 0)
     = (5, \<lparr>storage = fmupd 5 \<lparr>ptr = \<lparr>get = 5, ctrl = Some 1\<rparr>, type = TypeIndex 0\<rparr> fmempty\<rparr>)
   \<and> Store \<lparr>storage = fmupd 5 \<lparr>ptr = \<lparr>get = 5, ctrl = Some 1\<rparr>, type = TypeIndex 0\<rparr> fmempty\<rparr>
        \<lparr>get = 5, ctrl = Some 1\<rparr> (TypeIndex 0)
     = (5, \<lparr>storage = fmupd 5 \<lparr>ptr = \<lparr>get = 5, ctrl = Some 1\<rparr>, type = TypeIndex 0\<rparr> fmempty\<rparr>)
   \<and> GetStoredCount new_SharedPtrManager = 0
   \<and> GetStoredCount
        \<lparr>storage = fmupd 5 \<lparr>ptr = \<lparr>get = 5, ctrl = Some 1\<rparr>, type = TypeIndex 0\<rparr> fmempty\<rparr> = 1"
proof -
  have s1: "Store new_SharedPtrManager \<lparr>get = 5, ctrl = Some 1\<rparr> (TypeIndex 0)
     = (5, \<lparr>storage = fmupd 5 \<lparr>ptr = \<lparr>get = 5, ctrl = Some 1\<rparr>, type = TypeIndex 0\<rparr> fmempty\<rparr>)"
    by (simp add: new_SharedPtrManager_def Store_def Let_def)
  have s2: "Store \<lparr>storage = fmupd 5 \<lparr>ptr = \<lparr>get = 5, ctrl = Some 1\<rparr>, type = TypeIndex 0\<rparr> fmempty\<rparr>
        \<lparr>get = 5, ctrl = Some 1\<rparr> (TypeIndex 0)
     = (5, \<lparr>storage = fmupd 5 \<lparr>ptr = \<lparr>get = 5, ctrl = Some 1\<rparr>, type = TypeIndex 0\<rparr> fmempty\<rparr>)"
    by (simp add: Store_def Let_def)
  have fresh: "get \<lparr>get = 5, ctrl = Some 1\<rparr> \<noteq> 0
      \<and> fmlookup (storage new_SharedPtrManager) (get \<lparr>get = 5, ctrl = Some 1\<rparr>) = None"
    by (simp add: new_SharedPtrManager_def)
  have c0: "GetStoredCount new_SharedPtrManager = 0"
    by (simp add: GetStoredCount_def new_SharedPtrManager_def)
  from Store_idempotent [OF refl s1 s2] fresh c0 s1 s2 show ?thesis by simp
qed

subsection \<open>Storing under a second type\<close>

text \<open>
  Claim C4. When the address of \<open>p\<close> is already mapped to an entry of another type than
  \<open>U\<close>, \<open>Store\<close> of \<open>p\<close> under \<open>U\<close> returns the null handle and the manager
  unchanged, so the entry keeps its type and its shared pointer.
\<close>

theorem Store_type_conflict:
  assumes "fmlookup (storage m) (get p) = Some e" and "type e \<noteq> U"
  shows "Store m p U = (0, m)"
  using assms by (simp add: Store_def Let_def)

theorem Store_type_conflict_witness:
  "fmlookup (storage \<lparr>storage = fmupd 5 \<lparr>ptr = \<lparr>get = 5, ctrl = Some 1\<rparr>, type = TypeIndex 0\<rparr> fmempty\<rparr>)
       (get \<lparr>get = 5, ctrl = Some 1\<rparr>)
     = Some \<lparr>ptr = \<lparr>get = 5, ctrl = Some 1\<rparr>, type = TypeIndex 0\<rparr>
   \<and> TypeIndex 0 \<noteq> TypeIndex 1
   \<and> Store \<lparr>storage = fmupd 5 \<lparr>ptr = \<lparr>get = 5, ctrl = Some 1\<rparr>, type = TypeIndex 0\<rparr> fmempty\<rparr>
        \<lparr>get = 5, ctrl = Some 1\<rparr> (TypeIndex 1)
     = (0, \<lparr>storage = fmupd 5 \<lparr>ptr = \<lparr>get = 5, ctrl = Some 1\<rparr>, type = TypeIndex 0\<rparr> fmempty\<rparr>)"
proof -
  have e: "fmlookup (storage \<lparr>storage = fmupd 5 \<lparr>ptr = \<lparr>get = 5, ctrl = Some 1\<rparr>, type = TypeIndex 0\<rparr> fmempty\<rparr>)
       (get \<lparr>get = 5, ctrl = Some 1\<rparr>)
     = Some \<lparr>ptr = \<lparr>get = 5, ctrl = Some 1\<rparr>, type = TypeIndex 0\<rparr>"
    by simp
  have u: "type \<lparr>ptr = \<lparr>get = 5, ctrl = Some 1\<rparr>, type = TypeIndex 0\<rparr> \<noteq> TypeIndex 1"
    by simp
  from Store_type_conflict [OF e u] e show ?thesis by simp
qed

subsection \<open>Remove\<close>

text \<open>
  Claim C5. In every state the registry can reach, \<open>Remove\<close> of \<open>h\<close> under \<open>T\<close>
  returns true exactly when \<open>h\<close> is a key of the map whose entry has type \<open>T\<close>. When it
  returns true, the map afterwards is the old one without \<open>h\<close>, and \<open>Get\<close>,
  \<open>HasType\<close> and a second \<open>Remove\<close> of \<open>h\<close> under \<open>T\<close> report it absent. When it
  returns false, the manager is unchanged.
\<close>

theorem Remove_iff_mapped_with_type:
  assumes "Remove (registry_after cs) h T = (b, m')"
  shows "(b = (\<exists>e. fmlookup (storage (registry_after cs)) h = Some e \<and> type e = T))
       \<and> (b \<longrightarrow> storage m' = fmdrop h (storage (registry_after cs))
                \<and> fmlookup (storage m') h = None
                \<and> Get m' h T = null_shared_ptr
                \<and> HasType m' h T = False
                \<and> Remove m' h T = (False, m'))
       \<and> (\<not> b \<longrightarrow> m' = registry_after cs)"
proof (cases "fmlookup (storage (registry_after cs)) h")
  case None
  with assms show ?thesis
    by (auto simp: Remove_def split: if_splits)
next
  case (Some e)
  from mapped_key [OF keys_are_identities_registry_after Some] have "h \<noteq> 0" by simp
  with Some assms show ?thesis
    by (auto simp: Remove_def Get_def HasType_def split: if_splits)
qed

theorem Remove_iff_mapped_with_type_witness:
  "Remove (registry_after [OpStore \<lparr>get = 5, ctrl = Some 1\<rparr> (TypeIndex 0)]) 5 (TypeIndex 0)
     = (True, \<lparr>storage = fmempty\<rparr>)
   \<and> fmlookup (storage (registry_after [OpStore \<lparr>get = 5, ctrl = Some 1\<rparr> (TypeIndex 0)])) 5
     = Some \<lparr>ptr = \<lparr>get = 5, ctrl = Some 1\<rparr>, type = TypeIndex 0\<rparr>
   \<and> Get \<lparr>storage = fmempty\<rparr> 5 (TypeIndex 0) = null_shared_ptr
   \<and> HasType \<lparr>storage = fmempty\<rparr> 5 (TypeIndex 0) = False
   \<and> Remove \<lparr>storage = fmempty\<rparr> 5 (TypeIndex 0) = (False, \<lparr>storage = fmempty\<rparr>)
   \<and> Remove (registry_after [OpStore \<lparr>get = 5, ctrl = Some 1\<rparr> (TypeIndex 0)]) 5 (TypeIndex 1)
     = (False, registry_after [OpStore \<lparr>get = 5, ctrl = Some 1\<rparr> (TypeIndex 0)])"
proof -
  have r1: "Remove (registry_after [OpStore \<lparr>get = 5, ctrl = Some 1\<rparr> (TypeIndex 0)]) 5 (TypeIndex 0)
     = (True, \<lparr>storage = fmempty\<rparr>)"
    by (simp add: registry_after_def new_SharedPtrManager_def Store_def Remove_def Let_def
        fmdrop_fmupd_same)
  have r2: "Remove (registry_after [OpStore \<lparr>get = 5, ctrl = Some 1\<rparr> (TypeIndex 0)]) 5 (TypeIndex 1)
     = (False, registry_after [OpStore \<lparr>get = 5, ctrl = Some 1\<rparr> (TypeIndex 0)])"
    by (simp add: registry_after_def new_SharedPtrManager_def Store_def Remove_def Let_def)
  have e: "fmlookup (storage (registry_after [OpStore \<lparr>get = 5, ctrl = Some 1\<rparr> (TypeIndex 0)])) 5
     = Some \<lparr>ptr = \<lparr>get = 5, ctrl = Some 1\<rparr>, type = TypeIndex 0\<rparr>"
    by (simp add: registry_after_def new_SharedPtrManager_def Store_def Let_def)
  from Remove_iff_mapped_with_type [OF r1] Remove_iff_mapped_with_type [OF r2] r1 r2 e
  show ?thesis by simp
qed

subsection \<open>Clear\<close>

text \<open>
  Claim C6. After \<open>Clear\<close>, on any manager and so after any sequence of calls, the count is
  zero, the map is empty, and every handle is not found by \<open>Get\<close>, \<open>HasType\<close>,
  \<open>Contains\<close> and \<open>Remove\<close>. \<open>Clear\<close> always returns, and a second \<open>Clear\<close>
  changes nothing.
\<close>

theorem Clear_empties_registry:
  "GetStoredCount (Clear m) = 0
   \<and> storage (Clear m) = fmempty
   \<and> Get (Clear m) h T = null_shared_ptr
   \<and> HasType (Clear m) h T = False
   \<and> Contains (Clear m) h = False
   \<and> Remove (Clear m) h T = (False, Clear m)
   \<and> call (calls m0 cs) OpClear = (RetVoid, Clear (calls m0 cs))
   \<and> Clear (Clear m) = Clear m"
  by (simp add: Clear_def GetStoredCount_def Get_def HasType_def Contains_def Remove_def)

subsection \<open>How long a stored entry stays\<close>

lemma call_keeps_entry:
  assumes "fmlookup (storage m) h = Some e"
    and "c \<noteq> OpRemove h (type e)" and "c \<noteq> OpClear"
  shows "fmlookup (storage (snd (call m c))) h = Some e"
proof (cases c)
  case (OpStore p U)
  with assms(1) show ?thesis
    by (auto simp: Store_def Let_def split: option.splits)
next
  case (OpRemove h' U)
  with assms(1,2) show ?thesis
    by (auto simp: Remove_def split: option.splits)
qed (use assms in simp_all)

lemma calls_keep_entry:
  assumes "fmlookup (storage m) h = Some e"
    and "OpRemove h (type e) \<notin> set cs" and "OpClear \<notin> set cs"
  shows "fmlookup (storage (calls m cs)) h = Some e"
  using assms
proof (induction cs arbitrary: m)
  case Nil
  then show ?case by simp
next
  case (Cons c cs)
  from Cons.prems have "fmlookup (storage (snd (call m c))) h = Some e"
    by (intro call_keeps_entry) auto
  with Cons.IH [of "snd (call m c)"] Cons.prems show ?case by simp
qed

text \<open>
  Claim C7, amended. In every state the registry can reach, after \<open>Store\<close> of \<open>p\<close> under
  \<open>T\<close> has returned a non-null handle \<open>h\<close>, and after any further sequence of calls
  that holds neither \<open>Remove\<close> of \<open>h\<close> under \<open>T\<close> nor \<open>Clear\<close>, \<open>Get\<close> of \<open>h\<close>
  under \<open>T\<close> still returns what it returned right after the \<open>Store\<close>: a non-null shared
  pointer to the address of \<open>p\<close>'s object.
\<close>

theorem Store_persists_without_Remove_and_Clear:
  assumes "Store (registry_after pre) p T = (h, m1)" and "h \<noteq> 0"
    and "OpRemove h T \<notin> set cs" and "OpClear \<notin> set cs"
  shows "Get (calls m1 cs) h T = Get m1 h T
       \<and> get (Get (calls m1 cs) h T) = get p
       \<and> get (Get (calls m1 cs) h T) \<noteq> 0"
proof -
  have inv: "keys_are_identities m1"
    using keys_are_identities_Store [OF keys_are_identities_registry_after, of pre p T] assms(1)
    by simp
  from Store_maps [OF assms(1,2)] obtain e
    where h: "h = get p" and e: "fmlookup (storage m1) h = Some e" "type e = T"
    by blast
  from calls_keep_entry [OF e(1), of cs] assms(3,4) e(2)
  have later: "fmlookup (storage (calls m1 cs)) h = Some e" by simp
  from Get_mapped [OF inv e(1), of T] Get_mapped [OF keys_are_identities_calls [OF inv] later, of T]
    mapped_key [OF inv e(1)] e(2) h
  show ?thesis by simp
qed

theorem Store_persists_without_Remove_and_Clear_witness:
  "Store (registry_after []) \<lparr>get = 5, ctrl = Some 1\<rparr> (TypeIndex 0)
     = (5, \<lparr>storage = fmupd 5 \<lparr>ptr = \<lparr>get = 5, ctrl = Some 1\<rparr>, type = TypeIndex 0\<rparr> fmempty\<rparr>)
   \<and> (5::nat) \<noteq> 0
   \<and> OpRemove 5 (TypeIndex 0)
        \<notin> set [OpRemove 5 (TypeIndex 1), OpStore \<lparr>get = 6, ctrl = Some 2\<rparr> (TypeIndex 1),
                OpRemove 6 (TypeIndex 1)]
   \<and> OpClear
        \<notin> set [OpRemove 5 (TypeIndex 1), OpStore \<lparr>get = 6, ctrl = Some 2\<rparr> (TypeIndex 1),
                OpRemove 6 (TypeIndex 1)]
   \<and> Get (calls \<lparr>storage = fmupd 5 \<lparr>ptr = \<lparr>get = 5, ctrl = Some 1\<rparr>, type = TypeIndex 0\<rparr> fmempty\<rparr>
            [OpRemove 5 (TypeIndex 1), OpStore \<lparr>get = 6, ctrl = Some 2\<rparr> (TypeIndex 1),
             OpRemove 6 (TypeIndex 1)])
        5 (TypeIndex 0)
     = \<lparr>get = 5, ctrl = Some 1\<rparr>"
proof -
  have st: "Store (registry_after []) \<lparr>get = 5, ctrl = Some 1\<rparr> (TypeIndex 0)
     = (5, \<lparr>storage = fmupd 5 \<lparr>ptr = \<lparr>get = 5, ctrl = Some 1\<rparr>, type = TypeIndex 0\<rparr> fmempty\<rparr>)"
    by (simp add: registry_after_def new_SharedPtrManager_def Store_def Let_def)
  have nz: "(5::nat) \<noteq> 0" by simp
  have nr: "OpRemove 5 (TypeIndex 0)
        \<notin> set [OpRemove 5 (TypeIndex 1), OpStore \<lparr>get = 6, ctrl = Some 2\<rparr> (TypeIndex 1),
                OpRemove 6 (TypeIndex 1)]"
    by simp
  have nc: "OpClear
        \<notin> set [OpRemove 5 (TypeIndex 1), OpStore \<lparr>get = 6, ctrl = Some 2\<rparr> (TypeIndex 1),
                OpRemove 6 (TypeIndex 1)]"
    by simp
  have g: "Get \<lparr>storage = fmupd 5 \<lparr>ptr = \<lparr>get = 5, ctrl = Some 1\<rparr>, type = TypeIndex 0\<rparr> fmempty\<rparr>
      5 (TypeIndex 0) = \<lparr>get = 5, ctrl = Some 1\<rparr>"
    by (simp add: Get_def)
  from Store_persists_without_Remove_and_Clear [OF st nz nr nc] st nz nr nc g
  show ?thesis by simp
qed

text \<open>
  Claim C7 as first stated, with only \<open>Remove\<close> of \<open>h\<close> under \<open>T\<close> excluded, fails: after
  a successful \<open>Store\<close> that returned \<open>5\<close>, the one call \<open>Clear\<close> is a sequence without
  that \<open>Remove\<close>, and \<open>Get\<close> then returns the null pointer.
\<close>

theorem Store_persistence_counterexample:
  "Store (registry_after []) \<lparr>get = 5, ctrl = Some 1\<rparr> (TypeIndex 0)
     = (5, \<lparr>storage = fmupd 5 \<lparr>ptr = \<lparr>get = 5, ctrl = Some 1\<rparr>, type = TypeIndex 0\<rparr> fmempty\<rparr>)
   \<and> OpRemove 5 (TypeIndex 0) \<notin> set [OpClear]
   \<and> Get (calls \<lparr>storage = fmupd 5 \<lparr>ptr = \<lparr>get = 5, ctrl = Some 1\<rparr>, type = TypeIndex 0\<rparr> fmempty\<rparr>
            [OpClear])
        5 (TypeIndex 0)
     = null_shared_ptr
   \<and> get null_shared_ptr = 0"
  by (simp add: registry_after_def new_SharedPtrManager_def Store_def Let_def Clear_def Get_def
      null_shared_ptr_def)

subsection \<open>Null arguments\<close>

text \<open>
  Claim C8. On any manager and for any type, the null handle is not found: \<open>Get\<close> returns
  the null pointer and \<open>Remove\<close>, \<open>HasType\<close> and \<open>Contains\<close> return false. Each of the
  four calls returns and leaves the manager as it was.
\<close>

theorem null_handle_is_not_found:
  "Get m 0 T = null_shared_ptr
   \<and> Remove m 0 T = (False, m)
   \<and> HasType m 0 T = False
   \<and> Contains m 0 = False
   \<and> call m (OpGet 0 T) = (RetPtr null_shared_ptr, m)
   \<and> call m (OpRemove 0 T) = (RetBool False, m)
   \<and> call m (OpHasType 0 T) = (RetBool False, m)
   \<and> call m (OpContains 0) = (RetBool False, m)"
  by (simp add: Get_def Remove_def HasType_def Contains_def)

text \<open>
  Claim C9. \<open>Store\<close> of a shared pointer whose stored pointer is null returns the null
  handle and leaves the manager unchanged.
\<close>

theorem Store_null_is_no_op:
  assumes "get p = 0"
  shows "Store m p T = (0, m)"
  using assms by (simp add: Store_def)

theorem Store_null_is_no_op_witness:
  "get \<lparr>get = 0, ctrl = Some 1\<rparr> = 0
   \<and> Store (registry_after [OpStore \<lparr>get = 5, ctrl = Some 1\<rparr> (TypeIndex 0)])
        \<lparr>get = 0, ctrl = Some 1\<rparr> (TypeIndex 0)
     = (0, registry_after [OpStore \<lparr>get = 5, ctrl = Some 1\<rparr> (TypeIndex 0)])
   \<and> Store new_SharedPtrManager null_shared_ptr (TypeIndex 0) = (0, new_SharedPtrManager)"
proof -
  have n1: "get \<lparr>get = 0, ctrl = Some 1\<rparr> = 0" by simp
  have n2: "get null_shared_ptr = 0" by (simp add: null_shared_ptr_def)
  from Store_null_is_no_op [OF n1] Store_null_is_no_op [OF n2] n1 show ?thesis by simp
qed

subsection \<open>Contains and HasType\<close>

text \<open>
  Claim C10. In every state the registry can reach, \<open>Contains\<close> of \<open>h\<close> is true exactly
  when \<open>h\<close> is a key of the map, which is exactly when \<open>HasType\<close> of \<open>h\<close> is true for
  some type. For a mapped handle, \<open>Contains\<close> is true while \<open>HasType\<close> is true for the
  entry's type alone and false for every other type.
\<close>

theorem Contains_is_type_agnostic:
  "Contains (registry_after cs) h = (h |\<in>| fmdom (storage (registry_after cs)))
   \<and> Contains (registry_after cs) h = (\<exists>T. HasType (registry_after cs) h T)
   \<and> (fmlookup (storage (registry_after cs)) h = Some e \<longrightarrow>
        Contains (registry_after cs) h = True
        \<and> HasType (registry_after cs) h (type e) = True
        \<and> (\<forall>U. U \<noteq> type e \<longrightarrow> HasType (registry_after cs) h U = False))"
proof -
  let ?m = "registry_after cs"
  have inv: "keys_are_identities ?m" by (rule keys_are_identities_registry_after)
  have dom: "Contains ?m h = (h |\<in>| fmdom (storage ?m))"
    by (rule Contains_mapped [OF inv])
  have ex: "Contains ?m h = (\<exists>T. HasType ?m h T)"
    by (auto simp: Contains_def HasType_def split: option.splits)
  have typed: "Contains ?m h = True \<and> HasType ?m h (type e) = True
      \<and> (\<forall>U. U \<noteq> type e \<longrightarrow> HasType ?m h U = False)"
    if "fmlookup (storage ?m) h = Some e"
    using HasType_mapped [OF inv that] dom that by (auto simp: fmlookup_dom_iff)
  from dom ex typed show ?thesis by blast
qed

theorem Contains_is_type_agnostic_witness:
  "fmlookup (storage (registry_after [OpStore \<lparr>get = 5, ctrl = Some 1\<rparr> (TypeIndex 0)])) 5
     = Some \<lparr>ptr = \<lparr>get = 5, ctrl = Some 1\<rparr>, type = TypeIndex 0\<rparr>
   \<and> TypeIndex 1 \<noteq> TypeIndex 0
   \<and> Contains (registry_after [OpStore \<lparr>get = 5, ctrl = Some 1\<rparr> (TypeIndex 0)]) 5 = True
   \<and> HasType (registry_after [OpStore \<lparr>get = 5, ctrl = Some 1\<rparr> (TypeIndex 0)]) 5 (TypeIndex 0)
     = True
   \<and> HasType (registry_after [OpStore \<lparr>get = 5, ctrl = Some 1\<rparr> (TypeIndex 0)]) 5 (TypeIndex 1)
     = False"
proof -
  have e: "fmlookup (storage (registry_after [OpStore \<lparr>get = 5, ctrl = Some 1\<rparr> (TypeIndex 0)])) 5
     = Some \<lparr>ptr = \<lparr>get = 5, ctrl = Some 1\<rparr>, type = TypeIndex 0\<rparr>"
    by (simp add: registry_after_def new_SharedPtrManager_def Store_def Let_def)
  have u: "TypeIndex 1 \<noteq> type \<lparr>ptr = \<lparr>get = 5, ctrl = Some 1\<rparr>, type = TypeIndex 0\<rparr>"
    by simp
  from Contains_is_type_agnostic
    [of "[OpStore \<lparr>get = 5, ctrl = Some 1\<rparr> (TypeIndex 0)]" 5
        "\<lparr>ptr = \<lparr>get = 5, ctrl = Some 1\<rparr>, type = TypeIndex 0\<rparr>"] e
  have c: "Contains (registry_after [OpStore \<lparr>get = 5, ctrl = Some 1\<rparr> (TypeIndex 0)]) 5 = True"
    and t: "HasType (registry_after [OpStore \<lparr>get = 5, ctrl = Some 1\<rparr> (TypeIndex 0)]) 5
        (type \<lparr>ptr = \<lparr>get = 5, ctrl = Some 1\<rparr>, type = TypeIndex 0\<rparr>) = True"
    and other: "\<forall>U. U \<noteq> type \<lparr>ptr = \<lparr>get = 5, ctrl = Some 1\<rparr>, type = TypeIndex 0\<rparr>
        \<longrightarrow> HasType (registry_after [OpStore \<lparr>get = 5, ctrl = Some 1\<rparr> (TypeIndex 0)]) 5 U = False"
    by blast+
  from other u
  have f: "HasType (registry_after [OpStore \<lparr>get = 5, ctrl = Some 1\<rparr> (TypeIndex 0)]) 5 (TypeIndex 1)
      = False"
    by blast
  from t have t': "HasType (registry_after [OpStore \<lparr>get = 5, ctrl = Some 1\<rparr> (TypeIndex 0)]) 5
      (TypeIndex 0) = True"
    by simp
  from e c t' f show ?thesis by simp
qed

end
